theory Spec2Isabelle
  imports Main "HOL-Library.Word"
begin

section \<open>GraphicBufferMapper: locking a buffer as planar YCbCr\<close>

text \<open>
  The development embeds \<^verbatim>\<open>libs/ui/GraphicBufferMapper.cpp\<close>: the static helper
  \<^verbatim>\<open>isValidYCbCrPlane\<close>, the methods \<^verbatim>\<open>unlockAsync\<close>, \<^verbatim>\<open>unlock\<close> and
  \<^verbatim>\<open>lockAsyncYCbCr\<close>. The two hardware back ends (the Gralloc2 mapper and the
  gralloc1 device) are outside the file; their answers are parameters of the model.
\<close>

subsection \<open>Data\<close>

type_synonym int32_t = "32 word"
type_synonym uint32_t = "32 word"
type_synonym uint64_t = "64 word"

text \<open>A buffer handle is an opaque pointer, only handed on to the back end.\<close>

type_synonym buffer_handle_t = nat

text \<open>
  \<^verbatim>\<open>Rect\<close> (left, top, right, bottom). The method turns it into the back end's access
  region with \<^verbatim>\<open>asGralloc1Rect\<close>, which needs \<^verbatim>\<open>Rect::width()\<close> and
  \<^verbatim>\<open>Rect::height()\<close> of \<^verbatim>\<open>ui/Rect.h\<close>; the region is used for nothing but the
  back-end calls, so the back-end answers below are functions of the rectangle itself.
\<close>

type_synonym Rect = "int32_t \<times> int32_t \<times> int32_t \<times> int32_t"

text \<open>
  Modelled from the spec: the enum \<^verbatim>\<open>gralloc1_error_t\<close> is declared in
  \<^verbatim>\<open>hardware/gralloc1.h\<close>. The file names three of its values; every other code a
  back end reports is an opaque device error. \<^verbatim>\<open>NO_ERROR\<close> of \<^verbatim>\<open>utils/Errors.h\<close>,
  which \<^verbatim>\<open>unlock\<close> compares with, is the same value as \<^verbatim>\<open>GRALLOC1_ERROR_NONE\<close>.
\<close>

datatype gralloc1_error_t =
    GRALLOC1_ERROR_NONE
  | GRALLOC1_ERROR_BAD_HANDLE
  | GRALLOC1_ERROR_UNSUPPORTED
  | GRALLOC1_ERROR_OTHER nat

text \<open>
  Modelled from the spec: the enums \<^verbatim>\<open>android_flex_component_t\<close> and
  \<^verbatim>\<open>android_flex_format_t\<close> are declared in \<^verbatim>\<open>system/graphics.h\<close>. A component
  identifier is luma Y, chroma Cb, chroma Cr or something else; a format tag is
  YCbCr or something else.
\<close>

datatype android_flex_component_t =
    FLEX_COMPONENT_Y
  | FLEX_COMPONENT_Cb
  | FLEX_COMPONENT_Cr
  | FLEX_COMPONENT_OTHER nat

datatype android_flex_format_t =
    FLEX_FORMAT_YCbCr
  | FLEX_FORMAT_OTHER nat

text \<open>
  Modelled from the spec: \<^verbatim>\<open>android_flex_plane_t\<close> and \<^verbatim>\<open>android_ycbcr\<close> are
  declared in \<^verbatim>\<open>system/graphics.h\<close>. A plane has a starting address, a component
  identifier, bits per component, bits used and the two increments (all
  \<^verbatim>\<open>int32_t\<close>); the descriptor has three plane addresses and three sizes
  (\<^verbatim>\<open>size_t\<close>). The type parameter \<open>'w\<close> is the width of a pointer and of
  \<^verbatim>\<open>size_t\<close> on the platform.
\<close>

record (overloaded) ('w::len) android_flex_plane_t =
  top_left :: "'w word"
  component :: android_flex_component_t
  bits_per_component :: int32_t
  bits_used :: int32_t
  h_increment :: int32_t
  v_increment :: int32_t

record (overloaded) ('w::len) android_ycbcr =
  y :: "'w word"
  cb :: "'w word"
  cr :: "'w word"
  ystride :: "'w word"
  cstride :: "'w word"
  chroma_step :: "'w word"

subsection \<open>The back ends and what is observed of a call\<close>

text \<open>
  The answers of the two back ends. \<open>mapper_valid\<close> is \<^verbatim>\<open>mMapper->valid()\<close>;
  \<open>mapper_lock\<close> gives the error, the format and the planes of the layout that
  \<^verbatim>\<open>mMapper->lock\<close> fills; \<open>mapper_unlock\<close> the fence descriptor; \<open>device_onAdapter\<close> is
  \<^verbatim>\<open>mDevice->hasCapability(GRALLOC1_CAPABILITY_ON_ADAPTER)\<close>; \<open>device_lockYCbCr\<close>
  gives the error and the descriptor the device leaves in \<^verbatim>\<open>*ycbcr\<close>;
  \<open>device_getNumFlexPlanes\<close> the error and the count; \<open>device_lockFlex\<close> the error,
  the format it leaves in \<^verbatim>\<open>flexLayout.format\<close> and the content of each slot of the
  plane buffer after the call; \<open>device_unlock\<close> the error and the descriptor that
  \<^verbatim>\<open>fence->dup()\<close> yields.
\<close>

record (overloaded) ('w::len) backend =
  mapper_valid :: bool
  mapper_lock :: "buffer_handle_t \<Rightarrow> uint64_t \<Rightarrow> uint64_t \<Rightarrow> Rect \<Rightarrow> int32_t \<Rightarrow>
    gralloc1_error_t \<times> android_flex_format_t \<times> 'w android_flex_plane_t list"
  mapper_unlock :: "buffer_handle_t \<Rightarrow> int32_t"
  device_onAdapter :: bool
  device_lockYCbCr :: "buffer_handle_t \<Rightarrow> uint64_t \<Rightarrow> uint64_t \<Rightarrow> Rect \<Rightarrow>
    'w android_ycbcr \<Rightarrow> int32_t \<Rightarrow> gralloc1_error_t \<times> 'w android_ycbcr"
  device_getNumFlexPlanes :: "buffer_handle_t \<Rightarrow> gralloc1_error_t \<times> uint32_t"
  device_lockFlex :: "buffer_handle_t \<Rightarrow> uint64_t \<Rightarrow> uint64_t \<Rightarrow> Rect \<Rightarrow> uint32_t \<Rightarrow>
    int32_t \<Rightarrow> gralloc1_error_t \<times> android_flex_format_t \<times> (nat \<Rightarrow> 'w android_flex_plane_t)"
  device_unlock :: "buffer_handle_t \<Rightarrow> gralloc1_error_t \<times> int32_t"

text \<open>
  The calls that take or release something, in the order the method makes them.
\<close>

datatype event =
    Mapper_lock buffer_handle_t
  | Mapper_unlock buffer_handle_t
  | Device_lockYCbCr buffer_handle_t
  | Device_lockFlex buffer_handle_t
  | Device_unlock buffer_handle_t
  | Sync_wait int32_t
  | Close_fd int32_t

subsection \<open>unlockAsync and unlock (lines 484-503 and 273-282)\<close>

text \<open>
  \<open>unlockAsync\<close> takes the value \<^verbatim>\<open>*fenceFd\<close> holds before the call and returns the
  error, the value it holds after, and the calls made.
\<close>

definition unlockAsync ::
  "('w::len) backend \<Rightarrow> buffer_handle_t \<Rightarrow> int32_t \<Rightarrow> gralloc1_error_t \<times> int32_t \<times> event list"
where
  "unlockAsync b handle fenceFd =
    (if mapper_valid b then
       (GRALLOC1_ERROR_NONE, mapper_unlock b handle, [Mapper_unlock handle])
     else
       (case device_unlock b handle of (error, fd) \<Rightarrow>
          if error \<noteq> GRALLOC1_ERROR_NONE then (error, fenceFd, [Device_unlock handle])
          else (error, fd, [Device_unlock handle])))"

definition unlock :: "('w::len) backend \<Rightarrow> buffer_handle_t \<Rightarrow> gralloc1_error_t \<times> event list" where
  "unlock b handle =
    (case unlockAsync b handle (- 1) of (error, fenceFd, evs) \<Rightarrow>
       if error = GRALLOC1_ERROR_NONE then (error, evs @ [Sync_wait fenceFd, Close_fd fenceFd])
       else (error, evs))"

subsection \<open>isValidYCbCrPlane (lines 318-339)\<close>

definition isValidYCbCrPlane :: "('w::len) android_flex_plane_t \<Rightarrow> bool" where
  "isValidYCbCrPlane plane =
    (if bits_per_component plane \<noteq> 8 then False
     else if bits_used plane \<noteq> 8 then False
     else
       (let hasValidIncrement = (h_increment plane = 1 \<or>
              (component plane \<noteq> FLEX_COMPONENT_Y \<and> h_increment plane = 2));
            hasValidIncrement = (hasValidIncrement \<and> 0 < sint (v_increment plane))
        in if \<not> hasValidIncrement then False else True))"

subsection \<open>lockAsyncYCbCr (lines 341-482)\<close>

text \<open>
  The three iterators of the plane search are positions in the vector; the end
  iterator is the length of the vector.
\<close>

record plane_iters =
  yPlane :: nat
  cbPlane :: nat
  crPlane :: nat

text \<open>The body of the search loop (lines 420-426) at position \<open>planeIter\<close>.\<close>

definition findPlanes_step ::
  "('w::len) android_flex_plane_t \<Rightarrow> nat \<Rightarrow> plane_iters \<Rightarrow> plane_iters"
where
  "findPlanes_step plane planeIter its =
    (if component plane = FLEX_COMPONENT_Y then its\<lparr>yPlane := planeIter\<rparr>
     else if component plane = FLEX_COMPONENT_Cb then its\<lparr>cbPlane := planeIter\<rparr>
     else if component plane = FLEX_COMPONENT_Cr then its\<lparr>crPlane := planeIter\<rparr>
     else its)"

text \<open>The loop (lines 418-427) over the planes from position \<open>planeIter\<close> on.\<close>

fun findPlanes_loop ::
  "('w::len) android_flex_plane_t list \<Rightarrow> nat \<Rightarrow> plane_iters \<Rightarrow> plane_iters"
where
  "findPlanes_loop [] planeIter its = its"
| "findPlanes_loop (plane # rest) planeIter its =
     findPlanes_loop rest (Suc planeIter) (findPlanes_step plane planeIter its)"

text \<open>Lines 415-427: the iterators start at the end, the loop starts at the beginning.\<close>

definition findPlanes :: "('w::len) android_flex_plane_t list \<Rightarrow> plane_iters" where
  "findPlanes planes =
    findPlanes_loop planes 0
      \<lparr>yPlane = length planes, cbPlane = length planes, crPlane = length planes\<rparr>"

text \<open>
  Lines 404-481, what the method does once a back end has answered the lock with
  \<open>error\<close>, the format and the plane vector. The result is the status, the content
  of \<^verbatim>\<open>*ycbcr\<close> and the calls made.
\<close>

definition lockAsyncYCbCr_convert ::
  "('w::len) backend \<Rightarrow> buffer_handle_t \<Rightarrow> gralloc1_error_t \<Rightarrow> android_flex_format_t \<Rightarrow>
   'w android_flex_plane_t list \<Rightarrow> 'w android_ycbcr \<Rightarrow>
   gralloc1_error_t \<times> 'w android_ycbcr \<times> event list"
where
  "lockAsyncYCbCr_convert b handle error format planes ycbcr =
    (if error \<noteq> GRALLOC1_ERROR_NONE then (error, ycbcr, [])
     else if format \<noteq> FLEX_FORMAT_YCbCr then
       (GRALLOC1_ERROR_UNSUPPORTED, ycbcr, snd (unlock b handle))
     else
       (let its = findPlanes planes; cend = length planes in
        if yPlane its = cend then
          (GRALLOC1_ERROR_UNSUPPORTED, ycbcr, snd (unlock b handle))
        else if cbPlane its = cend then
          (GRALLOC1_ERROR_UNSUPPORTED, ycbcr, snd (unlock b handle))
        else if crPlane its = cend then
          (GRALLOC1_ERROR_UNSUPPORTED, ycbcr, snd (unlock b handle))
        else if \<not> isValidYCbCrPlane (planes ! yPlane its) then
          (GRALLOC1_ERROR_UNSUPPORTED, ycbcr, snd (unlock b handle))
        else if \<not> isValidYCbCrPlane (planes ! cbPlane its) then
          (GRALLOC1_ERROR_UNSUPPORTED, ycbcr, snd (unlock b handle))
        else if \<not> isValidYCbCrPlane (planes ! crPlane its) then
          (GRALLOC1_ERROR_UNSUPPORTED, ycbcr, snd (unlock b handle))
        else if v_increment (planes ! cbPlane its) \<noteq> v_increment (planes ! crPlane its) then
          (GRALLOC1_ERROR_UNSUPPORTED, ycbcr, snd (unlock b handle))
        else if h_increment (planes ! cbPlane its) \<noteq> h_increment (planes ! crPlane its) then
          (GRALLOC1_ERROR_UNSUPPORTED, ycbcr, snd (unlock b handle))
        else
          (error,
           ycbcr\<lparr>y := top_left (planes ! yPlane its),
                 cb := top_left (planes ! cbPlane its),
                 cr := top_left (planes ! crPlane its),
                 ystride := scast (v_increment (planes ! yPlane its)),
                 cstride := scast (v_increment (planes ! cbPlane its)),
                 chroma_step := scast (h_increment (planes ! cbPlane its))\<rparr>,
           [])))"

text \<open>
  Lines 346-402 take the lock from the back end in use, then the conversion above
  runs. On the mapper path the planes are copied into the vector only when the lock
  has succeeded; when it has failed the conversion returns before it reads them.
  On the gralloc1 path the plane vector has \<^verbatim>\<open>numPlanes\<close> slots, which
  \<^verbatim>\<open>lockFlex\<close> fills.
\<close>

definition lockAsyncYCbCr ::
  "('w::len) backend \<Rightarrow> buffer_handle_t \<Rightarrow> uint32_t \<Rightarrow> Rect \<Rightarrow> 'w android_ycbcr \<Rightarrow> int32_t \<Rightarrow>
   gralloc1_error_t \<times> 'w android_ycbcr \<times> event list"
where
  "lockAsyncYCbCr b handle usage bounds ycbcr fenceFd =
    (if mapper_valid b then
       (case mapper_lock b handle (ucast usage) (ucast usage) bounds fenceFd of
          (error, format, planes) \<Rightarrow>
            (case lockAsyncYCbCr_convert b handle error format planes ycbcr of
               (status, ycbcr', evs) \<Rightarrow> (status, ycbcr', Mapper_lock handle # evs)))
     else if device_onAdapter b then
       (case device_lockYCbCr b handle (ucast usage) (ucast usage) bounds ycbcr fenceFd of
          (error, ycbcr') \<Rightarrow> (error, ycbcr', [Device_lockYCbCr handle]))
     else
       (case device_getNumFlexPlanes b handle of
          (error, numPlanes) \<Rightarrow>
            if error \<noteq> GRALLOC1_ERROR_NONE then (error, ycbcr, [])
            else if numPlanes < 3 then (GRALLOC1_ERROR_UNSUPPORTED, ycbcr, [])
            else
              (case device_lockFlex b handle (ucast usage) (ucast usage) bounds numPlanes
                      fenceFd of
                 (error, format, slots) \<Rightarrow>
                   (case lockAsyncYCbCr_convert b handle error format
                           (map slots [0..<unat numPlanes]) ycbcr of
                      (status, ycbcr', evs) \<Rightarrow>
                        (status, ycbcr', Device_lockFlex handle # evs)))))"

subsection \<open>The specification's view of a layout\<close>

text \<open>
  The specification speaks of the Y, Cb and Cr plane of a layout and says that a
  later plane with the same component identifier overrides an earlier one. So the
  plane of component \<open>c\<close> is the last plane of the list that bears \<open>c\<close>, if there is one.
\<close>

definition last_plane ::
  "android_flex_component_t \<Rightarrow> ('w::len) android_flex_plane_t list \<Rightarrow>
   'w android_flex_plane_t option"
where
  "last_plane c planes =
    (let bearing = filter (\<lambda>p. component p = c) planes
     in if bearing = [] then None else Some (last bearing))"

text \<open>
  Position \<open>i\<close> is where the search for component \<open>c\<close> must end in a vector \<open>ps\<close> whose
  end iterator is \<open>n\<close>: the end iterator when no plane bears \<open>c\<close>, otherwise the
  position of the last plane that does.
\<close>

definition found_at ::
  "android_flex_component_t \<Rightarrow> ('w::len) android_flex_plane_t list \<Rightarrow> nat \<Rightarrow> nat \<Rightarrow> bool"
where
  "found_at c ps n i =
    (case last_plane c ps of
       None \<Rightarrow> i = n
     | Some p \<Rightarrow> i < length ps \<and> ps ! i = p \<and> component p = c \<and>
         (\<forall>j. i < j \<and> j < length ps \<longrightarrow> component (ps ! j) \<noteq> c))"

text \<open>
  The specification's per-plane validation (section 4.1, step 4): a usable 8-bit
  sample plane.
\<close>

definition usable_sample_plane :: "('w::len) android_flex_plane_t \<Rightarrow> bool" where
  "usable_sample_plane p \<longleftrightarrow>
     bits_per_component p = 8 \<and> bits_used p = 8 \<and> 0 < sint (v_increment p) \<and>
     (if component p = FLEX_COMPONENT_Y then h_increment p = 1
      else h_increment p = 1 \<or> h_increment p = 2)"

text \<open>
  The specification's resolver (section 4.1, steps 1 to 6), written from its words:
  a descriptor, or nothing when the layout is unsupported.
\<close>

definition FlexYCbCrResolver ::
  "android_flex_format_t \<Rightarrow> ('w::len) android_flex_plane_t list \<Rightarrow> 'w android_ycbcr option"
where
  "FlexYCbCrResolver format planes =
    (if format \<noteq> FLEX_FORMAT_YCbCr then None
     else
       (case last_plane FLEX_COMPONENT_Y planes of
          None \<Rightarrow> None
        | Some yp \<Rightarrow>
            (case last_plane FLEX_COMPONENT_Cb planes of
               None \<Rightarrow> None
             | Some cbp \<Rightarrow>
                 (case last_plane FLEX_COMPONENT_Cr planes of
                    None \<Rightarrow> None
                  | Some crp \<Rightarrow>
                      if usable_sample_plane yp \<and> usable_sample_plane cbp \<and>
                         usable_sample_plane crp \<and>
                         v_increment cbp = v_increment crp \<and>
                         h_increment cbp = h_increment crp
                      then Some \<lparr>y = top_left yp, cb = top_left cbp, cr = top_left crp,
                                 ystride = scast (v_increment yp),
                                 cstride = scast (v_increment cbp),
                                 chroma_step = scast (h_increment cbp)\<rparr>
                      else None))))"

text \<open>
  The lock operation has succeeded on the flex-layout path and has left the layout
  with tag \<open>format\<close> and plane vector \<open>planes\<close>: either the mapper is in use and answers
  so, or the device is in use, is not the adapter, reports at least three planes and
  answers so.
\<close>

definition lock_yields ::
  "('w::len) backend \<Rightarrow> buffer_handle_t \<Rightarrow> uint32_t \<Rightarrow> Rect \<Rightarrow> int32_t \<Rightarrow>
   android_flex_format_t \<Rightarrow> 'w android_flex_plane_t list \<Rightarrow> bool"
where
  "lock_yields b handle usage bounds fenceFd format planes =
    (if mapper_valid b then
       mapper_lock b handle (ucast usage) (ucast usage) bounds fenceFd =
         (GRALLOC1_ERROR_NONE, format, planes)
     else
       \<not> device_onAdapter b \<and>
       (case device_getNumFlexPlanes b handle of
          (error, numPlanes) \<Rightarrow>
            error = GRALLOC1_ERROR_NONE \<and> \<not> numPlanes < 3 \<and>
            (case device_lockFlex b handle (ucast usage) (ucast usage) bounds numPlanes
                    fenceFd of
               (error', format', slots) \<Rightarrow>
                 error' = GRALLOC1_ERROR_NONE \<and> format' = format \<and>
                 map slots [0..<unat numPlanes] = planes)))"

text \<open>The lock call of the back end in use on the flex-layout path.\<close>

definition lock_call :: "('w::len) backend \<Rightarrow> buffer_handle_t \<Rightarrow> event" where
  "lock_call b handle = (if mapper_valid b then Mapper_lock handle else Device_lockFlex handle)"

text \<open>How many times a list of calls unlocks the handle at a back end.\<close>

definition unlock_calls :: "buffer_handle_t \<Rightarrow> event list \<Rightarrow> nat" where
  "unlock_calls handle evs =
    length (filter (\<lambda>e. e = Mapper_unlock handle \<or> e = Device_unlock handle) evs)"

subsection \<open>Concrete inputs\<close>

text \<open>
  The layout of the specification's scenario (section 8) on a 64-bit platform:
  Y(8,8,h=1,v=64), Cb(8,8,h=2,v=32), Cr(8,8,h=2,v=32), at three addresses.
\<close>

definition scenario_Y :: "64 android_flex_plane_t" where
  "scenario_Y = \<lparr>top_left = 4096, component = FLEX_COMPONENT_Y, bits_per_component = 8,
     bits_used = 8, h_increment = 1, v_increment = 64\<rparr>"

definition scenario_Cb :: "64 android_flex_plane_t" where
  "scenario_Cb = \<lparr>top_left = 8192, component = FLEX_COMPONENT_Cb, bits_per_component = 8,
     bits_used = 8, h_increment = 2, v_increment = 32\<rparr>"

definition scenario_Cr :: "64 android_flex_plane_t" where
  "scenario_Cr = \<lparr>top_left = 8193, component = FLEX_COMPONENT_Cr, bits_per_component = 8,
     bits_used = 8, h_increment = 2, v_increment = 32\<rparr>"

definition scenario_planes :: "64 android_flex_plane_t list" where
  "scenario_planes = [scenario_Y, scenario_Cb, scenario_Cr]"

text \<open>A descriptor as the caller may hand it in, with old content in every field.\<close>

definition stale_ycbcr :: "64 android_ycbcr" where
  "stale_ycbcr = \<lparr>y = 11, cb = 12, cr = 13, ystride = 14, cstride = 15, chroma_step = 16\<rparr>"

text \<open>
  A mapper that answers every lock with the given layout and every unlock with
  fence descriptor 5, and a gralloc1 device (not the adapter) that does the same
  with fence descriptor 7.
\<close>

definition mapper_backend ::
  "android_flex_format_t \<Rightarrow> 64 android_flex_plane_t list \<Rightarrow> 64 backend"
where
  "mapper_backend format planes =
    \<lparr>mapper_valid = True,
     mapper_lock = (\<lambda>_ _ _ _ _. (GRALLOC1_ERROR_NONE, format, planes)),
     mapper_unlock = (\<lambda>_. 5),
     device_onAdapter = False,
     device_lockYCbCr = (\<lambda>_ _ _ _ yc _. (GRALLOC1_ERROR_BAD_HANDLE, yc)),
     device_getNumFlexPlanes = (\<lambda>_. (GRALLOC1_ERROR_BAD_HANDLE, 0)),
     device_lockFlex = (\<lambda>_ _ _ _ _ _. (GRALLOC1_ERROR_BAD_HANDLE, format, (\<lambda>_. scenario_Y))),
     device_unlock = (\<lambda>_. (GRALLOC1_ERROR_BAD_HANDLE, - 1))\<rparr>"

definition device_backend ::
  "android_flex_format_t \<Rightarrow> 64 android_flex_plane_t list \<Rightarrow> 64 backend"
where
  "device_backend format planes =
    \<lparr>mapper_valid = False,
     mapper_lock = (\<lambda>_ _ _ _ _. (GRALLOC1_ERROR_BAD_HANDLE, format, [])),
     mapper_unlock = (\<lambda>_. - 1),
     device_onAdapter = False,
     device_lockYCbCr = (\<lambda>_ _ _ _ yc _. (GRALLOC1_ERROR_BAD_HANDLE, yc)),
     device_getNumFlexPlanes = (\<lambda>_. (GRALLOC1_ERROR_NONE, of_nat (length planes))),
     device_lockFlex = (\<lambda>_ _ _ _ _ _. (GRALLOC1_ERROR_NONE, format, (\<lambda>i. planes ! i))),
     device_unlock = (\<lambda>_. (GRALLOC1_ERROR_NONE, 7))\<rparr>"

text \<open>
  Variations of the scenario: a Cb plane with horizontal increment 1 (valid on its
  own, but not the Cr plane's increment), a Y plane with 10 bits per component, and
  a plane of another component with nothing valid in it.
\<close>

definition step1_Cb :: "64 android_flex_plane_t" where
  "step1_Cb = scenario_Cb\<lparr>h_increment := 1\<rparr>"

definition deep_Y :: "64 android_flex_plane_t" where
  "deep_Y = scenario_Y\<lparr>bits_per_component := 10\<rparr>"

definition alpha_plane :: "64 android_flex_plane_t" where
  "alpha_plane = \<lparr>top_left = 12288, component = FLEX_COMPONENT_OTHER 30,
     bits_per_component = 16, bits_used = 10, h_increment = 4, v_increment = 0\<rparr>"

text \<open>
  A layout that repeats a component: the Y plane with 10 bits per component comes
  first, the scenario's Y plane last.
\<close>

definition repeated_Y_planes :: "64 android_flex_plane_t list" where
  "repeated_Y_planes = [deep_Y, scenario_Cb, scenario_Cr, scenario_Y]"

section \<open>Properties\<close>

subsection \<open>The plane search finds the last plane of each component\<close>

lemma last_plane_Nil: "last_plane c [] = None"
  by (simp add: last_plane_def)

lemma last_plane_snoc:
  "last_plane c (ps @ [p]) = (if component p = c then Some p else last_plane c ps)"
  by (simp add: last_plane_def)

lemma findPlanes_loop_snoc:
  "findPlanes_loop (ps @ [p]) i its =
   findPlanes_step p (i + length ps) (findPlanes_loop ps i its)"
  by (induction ps arbitrary: i its) simp_all

lemma found_at_snoc_same:
  "component p = c \<Longrightarrow> found_at c (ps @ [p]) n (length ps)"
  by (auto simp: found_at_def last_plane_snoc)

lemma found_at_snoc_other:
  "component p \<noteq> c \<Longrightarrow> found_at c ps n i \<Longrightarrow> length ps \<le> n \<Longrightarrow> found_at c (ps @ [p]) n i"
  by (auto simp: found_at_def last_plane_snoc nth_append split: option.splits)

lemma findPlanes_loop_found:
  "length ps \<le> n \<Longrightarrow>
   found_at FLEX_COMPONENT_Y ps n
     (yPlane (findPlanes_loop ps 0 \<lparr>yPlane = n, cbPlane = n, crPlane = n\<rparr>)) \<and>
   found_at FLEX_COMPONENT_Cb ps n
     (cbPlane (findPlanes_loop ps 0 \<lparr>yPlane = n, cbPlane = n, crPlane = n\<rparr>)) \<and>
   found_at FLEX_COMPONENT_Cr ps n
     (crPlane (findPlanes_loop ps 0 \<lparr>yPlane = n, cbPlane = n, crPlane = n\<rparr>))"
proof (induction ps rule: rev_induct)
  case Nil
  show ?case by (simp add: found_at_def last_plane_Nil)
next
  case (snoc p ps)
  then have len: "length ps \<le> n" by simp
  note ih = snoc.IH [OF len]
  show ?case
    using ih len
    by (auto simp: findPlanes_loop_snoc findPlanes_step_def
        intro: found_at_snoc_same found_at_snoc_other)
qed

lemma findPlanes_yPlane:
  "found_at FLEX_COMPONENT_Y ps (length ps) (yPlane (findPlanes ps))"
  using findPlanes_loop_found [of ps "length ps"] by (simp add: findPlanes_def)

lemma findPlanes_cbPlane:
  "found_at FLEX_COMPONENT_Cb ps (length ps) (cbPlane (findPlanes ps))"
  using findPlanes_loop_found [of ps "length ps"] by (simp add: findPlanes_def)

lemma findPlanes_crPlane:
  "found_at FLEX_COMPONENT_Cr ps (length ps) (crPlane (findPlanes ps))"
  using findPlanes_loop_found [of ps "length ps"] by (simp add: findPlanes_def)

subsection \<open>The conversion computes the specification's resolver\<close>

lemma isValidYCbCrPlane_usable: "isValidYCbCrPlane p = usable_sample_plane p"
  by (auto simp: isValidYCbCrPlane_def usable_sample_plane_def Let_def)

lemma android_ycbcr_all_fields:
  "r\<lparr>y := a1, cb := a2, cr := a3, ystride := a4, cstride := a5, chroma_step := a6\<rparr> =
   \<lparr>y = a1, cb = a2, cr = a3, ystride = a4, cstride = a5, chroma_step = a6\<rparr>"
  by (cases r) simp

lemma convert_resolver:
  "lockAsyncYCbCr_convert b handle GRALLOC1_ERROR_NONE format planes ycbcr =
    (case FlexYCbCrResolver format planes of
       None \<Rightarrow> (GRALLOC1_ERROR_UNSUPPORTED, ycbcr, snd (unlock b handle))
     | Some d \<Rightarrow> (GRALLOC1_ERROR_NONE, d, []))"
proof (cases "format = FLEX_FORMAT_YCbCr")
  case False
  then show ?thesis
    by (simp add: lockAsyncYCbCr_convert_def FlexYCbCrResolver_def)
next
  case True
  note fy = findPlanes_yPlane [of planes, unfolded found_at_def]
  note fcb = findPlanes_cbPlane [of planes, unfolded found_at_def]
  note fcr = findPlanes_crPlane [of planes, unfolded found_at_def]
  show ?thesis
    using True fy fcb fcr
    by (auto simp: lockAsyncYCbCr_convert_def FlexYCbCrResolver_def Let_def
        isValidYCbCrPlane_usable android_ycbcr_all_fields split: option.splits)
qed

lemma convert_error:
  "error \<noteq> GRALLOC1_ERROR_NONE \<Longrightarrow>
   lockAsyncYCbCr_convert b handle error format planes ycbcr = (error, ycbcr, [])"
  by (simp add: lockAsyncYCbCr_convert_def)

lemma lockAsyncYCbCr_locked:
  assumes "lock_yields b handle usage bounds fenceFd format planes"
  shows "lockAsyncYCbCr b handle usage bounds ycbcr fenceFd =
    (case lockAsyncYCbCr_convert b handle GRALLOC1_ERROR_NONE format planes ycbcr of
       (status, ycbcr', evs) \<Rightarrow> (status, ycbcr', lock_call b handle # evs))"
proof (cases "mapper_valid b")
  case True
  with assms show ?thesis
    by (simp add: lock_yields_def lockAsyncYCbCr_def lock_call_def)
next
  case False
  obtain error numPlanes where n: "device_getNumFlexPlanes b handle = (error, numPlanes)"
    by (cases "device_getNumFlexPlanes b handle")
  obtain error' format' slots where
    l: "device_lockFlex b handle (ucast usage) (ucast usage) bounds numPlanes fenceFd =
        (error', format', slots)"
    by (cases "device_lockFlex b handle (ucast usage) (ucast usage) bounds numPlanes fenceFd")
  from assms False n l show ?thesis
    by (simp add: lock_yields_def lockAsyncYCbCr_def lock_call_def)
qed

lemma lockAsyncYCbCr_resolver:
  assumes "lock_yields b handle usage bounds fenceFd format planes"
  shows "lockAsyncYCbCr b handle usage bounds ycbcr fenceFd =
    (case FlexYCbCrResolver format planes of
       None \<Rightarrow> (GRALLOC1_ERROR_UNSUPPORTED, ycbcr, lock_call b handle # snd (unlock b handle))
     | Some d \<Rightarrow> (GRALLOC1_ERROR_NONE, d, [lock_call b handle]))"
  by (simp add: lockAsyncYCbCr_locked [OF assms] convert_resolver split: option.splits)

lemma unlock_calls_unlock: "unlock_calls handle (snd (unlock b handle)) = 1"
  by (simp add: unlock_calls_def unlock_def unlockAsync_def split: prod.splits)

lemma unlock_calls_lock_call:
  "unlock_calls handle (lock_call b handle # evs) = unlock_calls handle evs"
  by (simp add: unlock_calls_def lock_call_def)

lemma mapper_backend_yields:
  "lock_yields (mapper_backend format planes) handle usage bounds fenceFd format planes"
  by (simp add: lock_yields_def mapper_backend_def)

lemma last_plane_SomeD:
  "last_plane c ps = Some p \<Longrightarrow> component p = c \<and> p \<in> set ps"
proof -
  assume a: "last_plane c ps = Some p"
  let ?bearing = "filter (\<lambda>q. component q = c) ps"
  from a have ne: "?bearing \<noteq> []" and p: "p = last ?bearing"
    by (auto simp: last_plane_def Let_def split: if_splits)
  from ne have "last ?bearing \<in> set ?bearing" by (rule last_in_set)
  with p show ?thesis by simp
qed

lemma last_plane_None_iff:
  "last_plane c ps = None \<longleftrightarrow> c \<notin> component ` set ps"
  by (auto simp: last_plane_def Let_def filter_empty_conv)

lemma last_plane_skip:
  "component p \<noteq> c \<Longrightarrow> last_plane c (xs @ p # zs) = last_plane c (xs @ zs)"
  by (simp add: last_plane_def)

lemma size_t_of_positive:
  fixes x :: int32_t
  assumes "0 < sint x" and "32 \<le> LENGTH('w::len)"
  shows "uint (scast x :: 'w word) = sint x"
proof -
  have "sint x < 2 ^ (LENGTH(32) - 1)" by (rule sint_lt)
  also have "(2::int) ^ (LENGTH(32) - 1) \<le> 2 ^ LENGTH('w)"
    by (rule power_increasing) (use assms(2) in simp_all)
  finally have lt: "sint x < 2 ^ LENGTH('w)" .
  have "uint (scast x :: 'w word) = sint x mod 2 ^ LENGTH('w)"
    by (simp only: scast_eq uint_word_of_int)
  also have "\<dots> = sint x"
    using assms(1) lt by (simp only: mod_pos_pos_trivial order_less_imp_le)
  finally show ?thesis .
qed

lemma device_backend_yields:
  "length planes = 3 \<Longrightarrow>
   lock_yields (device_backend format planes) handle usage bounds fenceFd format planes"
  by (auto simp: lock_yields_def device_backend_def intro: nth_equalityI)

lemma resolver_None_iff:
  "FlexYCbCrResolver format planes = None \<longleftrightarrow>
     format \<noteq> FLEX_FORMAT_YCbCr \<or>
     last_plane FLEX_COMPONENT_Y planes = None \<or>
     last_plane FLEX_COMPONENT_Cb planes = None \<or>
     last_plane FLEX_COMPONENT_Cr planes = None \<or>
     (\<exists>yp cbp crp.
        last_plane FLEX_COMPONENT_Y planes = Some yp \<and>
        last_plane FLEX_COMPONENT_Cb planes = Some cbp \<and>
        last_plane FLEX_COMPONENT_Cr planes = Some crp \<and>
        (\<not> isValidYCbCrPlane yp \<or> \<not> isValidYCbCrPlane cbp \<or> \<not> isValidYCbCrPlane crp \<or>
         v_increment cbp \<noteq> v_increment crp \<or> h_increment cbp \<noteq> h_increment crp))"
  by (auto simp: FlexYCbCrResolver_def isValidYCbCrPlane_usable split: option.splits)

lemma resolver_SomeD:
  assumes "FlexYCbCrResolver format planes = Some d"
  shows "format = FLEX_FORMAT_YCbCr \<and>
    (\<exists>yp cbp crp.
       last_plane FLEX_COMPONENT_Y planes = Some yp \<and>
       last_plane FLEX_COMPONENT_Cb planes = Some cbp \<and>
       last_plane FLEX_COMPONENT_Cr planes = Some crp \<and>
       d = \<lparr>y = top_left yp, cb = top_left cbp, cr = top_left crp,
            ystride = scast (v_increment yp), cstride = scast (v_increment cbp),
            chroma_step = scast (h_increment cbp)\<rparr>)"
  using assms
  by (auto simp: FlexYCbCrResolver_def split: option.splits if_splits)

lemma resolver_last_planes:
  assumes "last_plane FLEX_COMPONENT_Y planes = last_plane FLEX_COMPONENT_Y planes'"
    and "last_plane FLEX_COMPONENT_Cb planes = last_plane FLEX_COMPONENT_Cb planes'"
    and "last_plane FLEX_COMPONENT_Cr planes = last_plane FLEX_COMPONENT_Cr planes'"
  shows "FlexYCbCrResolver format planes = FlexYCbCrResolver format planes'"
  unfolding FlexYCbCrResolver_def assms by (rule refl)

lemma convert_last_planes:
  assumes "last_plane FLEX_COMPONENT_Y planes = last_plane FLEX_COMPONENT_Y planes'"
    and "last_plane FLEX_COMPONENT_Cb planes = last_plane FLEX_COMPONENT_Cb planes'"
    and "last_plane FLEX_COMPONENT_Cr planes = last_plane FLEX_COMPONENT_Cr planes'"
  shows "lockAsyncYCbCr_convert b handle error format planes ycbcr =
    lockAsyncYCbCr_convert b handle error format planes' ycbcr"
proof (cases "error = GRALLOC1_ERROR_NONE")
  case True
  then show ?thesis
    by (simp add: convert_resolver resolver_last_planes [OF assms])
next
  case False
  then show ?thesis by (simp add: convert_error)
qed

lemma flex_path_cases:
  assumes "mapper_valid b \<or> \<not> device_onAdapter b"
  shows "(\<exists>format planes. lock_yields b handle usage bounds fenceFd format planes) \<or>
    (fst (lockAsyncYCbCr b handle usage bounds ycbcr fenceFd) \<noteq> GRALLOC1_ERROR_NONE \<and>
     fst (snd (lockAsyncYCbCr b handle usage bounds ycbcr fenceFd)) = ycbcr)"
proof (cases "mapper_valid b")
  case True
  obtain error format planes where
    l: "mapper_lock b handle (ucast usage) (ucast usage) bounds fenceFd = (error, format, planes)"
    by (cases "mapper_lock b handle (ucast usage) (ucast usage) bounds fenceFd")
  show ?thesis
  proof (cases "error = GRALLOC1_ERROR_NONE")
    case True
    with \<open>mapper_valid b\<close> l have "lock_yields b handle usage bounds fenceFd format planes"
      by (simp add: lock_yields_def)
    then show ?thesis by blast
  next
    case False
    with \<open>mapper_valid b\<close> l show ?thesis
      by (simp add: lockAsyncYCbCr_def convert_error)
  qed
next
  case False
  with assms have na: "\<not> device_onAdapter b" by simp
  obtain error numPlanes where n: "device_getNumFlexPlanes b handle = (error, numPlanes)"
    by (cases "device_getNumFlexPlanes b handle")
  obtain error' format slots where
    l: "device_lockFlex b handle (ucast usage) (ucast usage) bounds numPlanes fenceFd =
        (error', format, slots)"
    by (cases "device_lockFlex b handle (ucast usage) (ucast usage) bounds numPlanes fenceFd")
  show ?thesis
  proof (cases "error = GRALLOC1_ERROR_NONE \<and> \<not> numPlanes < 3 \<and> error' = GRALLOC1_ERROR_NONE")
    case True
    with False na n l
    have "lock_yields b handle usage bounds fenceFd format (map slots [0..<unat numPlanes])"
      by (simp add: lock_yields_def)
    then show ?thesis by blast
  next
    case False
    with \<open>\<not> mapper_valid b\<close> na n l show ?thesis
      by (auto simp: lockAsyncYCbCr_def convert_error)
  qed
qed

lemma found_at_unique:
  assumes "found_at c ps n k"
    and "i < length ps" and "component (ps ! i) = c"
    and "\<forall>j. i < j \<and> j < length ps \<longrightarrow> component (ps ! j) \<noteq> c"
  shows "k = i"
proof -
  from assms(2,3) have "c \<in> component ` set ps"
    by (metis imageI nth_mem)
  then obtain p where p: "last_plane c ps = Some p"
    by (cases "last_plane c ps") (simp_all add: last_plane_None_iff)
  with assms(1) have k: "k < length ps" "component (ps ! k) = c"
    and later: "\<forall>j. k < j \<and> j < length ps \<longrightarrow> component (ps ! j) \<noteq> c"
    by (simp_all add: found_at_def)
  show ?thesis
  proof (rule ccontr)
    assume "k \<noteq> i"
    then consider "k < i" | "i < k" by linarith
    then show False
    proof cases
      case 1
      with later assms(2,3) show False by blast
    next
      case 2
      with assms(4) k show False by blast
    qed
  qed
qed

lemma findPlanes_loop_append:
  "findPlanes_loop (xs @ zs) i its =
   findPlanes_loop zs (i + length xs) (findPlanes_loop xs i its)"
  by (induction xs arbitrary: i its) simp_all

subsection \<open>The claims\<close>

text \<open>
  C6. Once the lock has succeeded with a layout whose format tag is not YCbCr,
  \<open>lockAsyncYCbCr\<close> unlocks and returns the unsupported outcome with the descriptor
  as it was handed in; the result is the same whatever the plane vector holds, so no
  plane is classified or validated on the way.
\<close>

theorem lockAsyncYCbCr_rejects_other_format:
  assumes "lock_yields b handle usage bounds fenceFd format planes"
    and "format \<noteq> FLEX_FORMAT_YCbCr"
  shows "lockAsyncYCbCr b handle usage bounds ycbcr fenceFd =
    (GRALLOC1_ERROR_UNSUPPORTED, ycbcr, lock_call b handle # snd (unlock b handle))"
  using assms(2)
  by (simp add: lockAsyncYCbCr_resolver [OF assms(1)] FlexYCbCrResolver_def)

theorem lockAsyncYCbCr_rejects_other_format_witness:
  "lockAsyncYCbCr (mapper_backend (FLEX_FORMAT_OTHER 0) scenario_planes) 1 3 (0, 0, 16, 16)
     stale_ycbcr (- 1) =
   (GRALLOC1_ERROR_UNSUPPORTED, stale_ycbcr,
    [Mapper_lock 1, Mapper_unlock 1, Sync_wait 5, Close_fd 5])"
proof -
  have locked: "lock_yields (mapper_backend (FLEX_FORMAT_OTHER 0) scenario_planes) 1 3
      (0, 0, 16, 16) (- 1) (FLEX_FORMAT_OTHER 0) scenario_planes"
    by (rule mapper_backend_yields)
  have fmt: "FLEX_FORMAT_OTHER 0 \<noteq> FLEX_FORMAT_YCbCr" by simp
  show ?thesis
    using lockAsyncYCbCr_rejects_other_format [OF locked fmt, of stale_ycbcr]
    by (simp add: lock_call_def unlock_def unlockAsync_def mapper_backend_def)
qed

text \<open>
  C1. Once the lock has succeeded with a layout whose format tag is YCbCr and whose
  Y, Cb and Cr planes are valid (8 bits per component, 8 bits used, positive vertical
  increment, horizontal increment 1 for Y and 1 or 2 for Cb and Cr, Cb and Cr with
  equal increments), \<open>lockAsyncYCbCr\<close> succeeds without unlocking and writes all six
  fields: the three start addresses, the vertical increments of Y and of Cb, and the
  horizontal increment of Cb. On a platform whose \<^verbatim>\<open>size_t\<close> has at least 32 bits the
  three sizes are the increments as numbers.
\<close>

theorem lockAsyncYCbCr_fills_descriptor:
  fixes b :: "('w::len) backend"
  assumes "lock_yields b handle usage bounds fenceFd FLEX_FORMAT_YCbCr planes"
    and "last_plane FLEX_COMPONENT_Y planes = Some yp"
    and "last_plane FLEX_COMPONENT_Cb planes = Some cbp"
    and "last_plane FLEX_COMPONENT_Cr planes = Some crp"
    and "bits_per_component yp = 8 \<and> bits_used yp = 8"
    and "bits_per_component cbp = 8 \<and> bits_used cbp = 8"
    and "bits_per_component crp = 8 \<and> bits_used crp = 8"
    and "h_increment yp = 1"
    and "h_increment cbp = 1 \<or> h_increment cbp = 2"
    and "0 < sint (v_increment yp) \<and> 0 < sint (v_increment cbp)"
    and "v_increment crp = v_increment cbp \<and> h_increment crp = h_increment cbp"
  shows "lockAsyncYCbCr b handle usage bounds ycbcr fenceFd =
      (GRALLOC1_ERROR_NONE,
       \<lparr>y = top_left yp, cb = top_left cbp, cr = top_left crp,
        ystride = scast (v_increment yp), cstride = scast (v_increment cbp),
        chroma_step = scast (h_increment cbp)\<rparr>,
       [lock_call b handle]) \<and>
    (32 \<le> LENGTH('w) \<longrightarrow>
       uint (ystride (fst (snd (lockAsyncYCbCr b handle usage bounds ycbcr fenceFd)))) =
         sint (v_increment yp) \<and>
       uint (cstride (fst (snd (lockAsyncYCbCr b handle usage bounds ycbcr fenceFd)))) =
         sint (v_increment cbp) \<and>
       uint (chroma_step (fst (snd (lockAsyncYCbCr b handle usage bounds ycbcr fenceFd)))) =
         sint (h_increment cbp))"
proof -
  have cy: "component yp = FLEX_COMPONENT_Y"
    and ccb: "component cbp = FLEX_COMPONENT_Cb"
    and ccr: "component crp = FLEX_COMPONENT_Cr"
    using assms(2-4) by (simp_all add: last_plane_SomeD)
  have uy: "usable_sample_plane yp"
    using assms(5,8,10) cy by (simp add: usable_sample_plane_def)
  have ucb: "usable_sample_plane cbp"
    using assms(6,9,10) ccb by (simp add: usable_sample_plane_def)
  have ucr: "usable_sample_plane crp"
    using assms(7,9,10,11) ccr by (simp add: usable_sample_plane_def)
  have res: "FlexYCbCrResolver FLEX_FORMAT_YCbCr planes =
      Some \<lparr>y = top_left yp, cb = top_left cbp, cr = top_left crp,
        ystride = scast (v_increment yp), cstride = scast (v_increment cbp),
        chroma_step = scast (h_increment cbp)\<rparr>"
    using assms(2-4,11) uy ucb ucr by (simp add: FlexYCbCrResolver_def)
  have first: "lockAsyncYCbCr b handle usage bounds ycbcr fenceFd =
      (GRALLOC1_ERROR_NONE,
       \<lparr>y = top_left yp, cb = top_left cbp, cr = top_left crp,
        ystride = scast (v_increment yp), cstride = scast (v_increment cbp),
        chroma_step = scast (h_increment cbp)\<rparr>,
       [lock_call b handle])"
    by (simp add: lockAsyncYCbCr_resolver [OF assms(1)] res)
  have hpos: "0 < sint (h_increment cbp)"
    using assms(9) by auto
  have sizes: "32 \<le> LENGTH('w) \<longrightarrow>
       uint (scast (v_increment yp) :: 'w word) = sint (v_increment yp) \<and>
       uint (scast (v_increment cbp) :: 'w word) = sint (v_increment cbp) \<and>
       uint (scast (h_increment cbp) :: 'w word) = sint (h_increment cbp)"
    using assms(10) hpos by (simp add: size_t_of_positive)
  from first sizes show ?thesis by simp
qed

theorem lockAsyncYCbCr_fills_descriptor_witness:
  "lockAsyncYCbCr (device_backend FLEX_FORMAT_YCbCr scenario_planes) 1 3 (0, 0, 16, 16)
     stale_ycbcr (- 1) =
   (GRALLOC1_ERROR_NONE,
    \<lparr>y = 4096, cb = 8192, cr = 8193, ystride = 64, cstride = 32, chroma_step = 2\<rparr>,
    [Device_lockFlex 1])"
proof -
  have locked: "lock_yields (device_backend FLEX_FORMAT_YCbCr scenario_planes) 1 3
      (0, 0, 16, 16) (- 1) FLEX_FORMAT_YCbCr scenario_planes"
    by (rule device_backend_yields) (simp add: scenario_planes_def)
  have py: "last_plane FLEX_COMPONENT_Y scenario_planes = Some scenario_Y"
    and pcb: "last_plane FLEX_COMPONENT_Cb scenario_planes = Some scenario_Cb"
    and pcr: "last_plane FLEX_COMPONENT_Cr scenario_planes = Some scenario_Cr"
    by (simp_all add: last_plane_def scenario_planes_def scenario_Y_def scenario_Cb_def
        scenario_Cr_def)
  have "lockAsyncYCbCr (device_backend FLEX_FORMAT_YCbCr scenario_planes) 1 3 (0, 0, 16, 16)
      stale_ycbcr (- 1) =
    (GRALLOC1_ERROR_NONE,
     \<lparr>y = top_left scenario_Y, cb = top_left scenario_Cb, cr = top_left scenario_Cr,
      ystride = scast (v_increment scenario_Y), cstride = scast (v_increment scenario_Cb),
      chroma_step = scast (h_increment scenario_Cb)\<rparr>,
     [lock_call (device_backend FLEX_FORMAT_YCbCr scenario_planes) 1])"
    by (rule lockAsyncYCbCr_fills_descriptor [OF locked py pcb pcr, THEN conjunct1])
      (simp_all add: scenario_Y_def scenario_Cb_def scenario_Cr_def)
  then show ?thesis
    by (simp add: scenario_Y_def scenario_Cb_def scenario_Cr_def lock_call_def
        device_backend_def)
qed

text \<open>
  C2. The per-plane validation accepts a plane exactly when it has 8 bits per
  component, 8 bits used, a positive vertical increment, and a horizontal increment
  of 1 if it is a Y plane and of 1 or 2 otherwise (so for a Cb or Cr plane). Once the
  lock has succeeded, a Y, Cb or Cr plane of the layout that the validation rejects
  makes \<open>lockAsyncYCbCr\<close> return the unsupported outcome, the descriptor untouched.
\<close>

theorem isValidYCbCrPlane_decides:
  "(isValidYCbCrPlane p \<longleftrightarrow>
      bits_per_component p = 8 \<and> bits_used p = 8 \<and> 0 < sint (v_increment p) \<and>
      (if component p = FLEX_COMPONENT_Y then h_increment p = 1
       else h_increment p = 1 \<or> h_increment p = 2)) \<and>
   (lock_yields b handle usage bounds fenceFd format planes \<and>
    last_plane FLEX_COMPONENT_Y planes = Some yp \<and>
    last_plane FLEX_COMPONENT_Cb planes = Some cbp \<and>
    last_plane FLEX_COMPONENT_Cr planes = Some crp \<and>
    (\<not> isValidYCbCrPlane yp \<or> \<not> isValidYCbCrPlane cbp \<or> \<not> isValidYCbCrPlane crp) \<longrightarrow>
    lockAsyncYCbCr b handle usage bounds ycbcr fenceFd =
      (GRALLOC1_ERROR_UNSUPPORTED, ycbcr, lock_call b handle # snd (unlock b handle)))"
proof (intro conjI impI)
  show "isValidYCbCrPlane p \<longleftrightarrow>
      bits_per_component p = 8 \<and> bits_used p = 8 \<and> 0 < sint (v_increment p) \<and>
      (if component p = FLEX_COMPONENT_Y then h_increment p = 1
       else h_increment p = 1 \<or> h_increment p = 2)"
    by (simp add: isValidYCbCrPlane_usable usable_sample_plane_def)
next
  assume a: "lock_yields b handle usage bounds fenceFd format planes \<and>
    last_plane FLEX_COMPONENT_Y planes = Some yp \<and>
    last_plane FLEX_COMPONENT_Cb planes = Some cbp \<and>
    last_plane FLEX_COMPONENT_Cr planes = Some crp \<and>
    (\<not> isValidYCbCrPlane yp \<or> \<not> isValidYCbCrPlane cbp \<or> \<not> isValidYCbCrPlane crp)"
  then have locked: "lock_yields b handle usage bounds fenceFd format planes" by simp
  from a have "FlexYCbCrResolver format planes = None"
    by (auto simp: FlexYCbCrResolver_def isValidYCbCrPlane_usable)
  then show "lockAsyncYCbCr b handle usage bounds ycbcr fenceFd =
      (GRALLOC1_ERROR_UNSUPPORTED, ycbcr, lock_call b handle # snd (unlock b handle))"
    by (simp add: lockAsyncYCbCr_resolver [OF locked])
qed

theorem isValidYCbCrPlane_decides_witness:
  "\<not> isValidYCbCrPlane deep_Y \<and>
   lockAsyncYCbCr (mapper_backend FLEX_FORMAT_YCbCr [deep_Y, scenario_Cb, scenario_Cr]) 1 3
     (0, 0, 16, 16) stale_ycbcr (- 1) =
   (GRALLOC1_ERROR_UNSUPPORTED, stale_ycbcr,
    [Mapper_lock 1, Mapper_unlock 1, Sync_wait 5, Close_fd 5])"
proof -
  let ?planes = "[deep_Y, scenario_Cb, scenario_Cr]"
  let ?b = "mapper_backend FLEX_FORMAT_YCbCr ?planes"
  note d = isValidYCbCrPlane_decides [of deep_Y ?b 1 3 "(0, 0, 16, 16)" "- 1"
      FLEX_FORMAT_YCbCr ?planes deep_Y scenario_Cb scenario_Cr stale_ycbcr]
  have bad: "\<not> isValidYCbCrPlane deep_Y"
    using d [THEN conjunct1] by (simp add: deep_Y_def scenario_Y_def)
  have locked: "lock_yields ?b 1 3 (0, 0, 16, 16) (- 1) FLEX_FORMAT_YCbCr ?planes"
    by (rule mapper_backend_yields)
  have sel: "last_plane FLEX_COMPONENT_Y ?planes = Some deep_Y \<and>
      last_plane FLEX_COMPONENT_Cb ?planes = Some scenario_Cb \<and>
      last_plane FLEX_COMPONENT_Cr ?planes = Some scenario_Cr"
    by (simp add: last_plane_def deep_Y_def scenario_Y_def scenario_Cb_def scenario_Cr_def)
  have "lockAsyncYCbCr ?b 1 3 (0, 0, 16, 16) stale_ycbcr (- 1) =
      (GRALLOC1_ERROR_UNSUPPORTED, stale_ycbcr, lock_call ?b 1 # snd (unlock ?b 1))"
    using d [THEN conjunct2] locked sel bad by blast
  then show ?thesis
    using bad by (simp add: lock_call_def unlock_def unlockAsync_def mapper_backend_def)
qed

text \<open>
  C4. Once the lock has succeeded, a layout in which one of the components Y, Cb and
  Cr appears on no plane makes \<open>lockAsyncYCbCr\<close> return the unsupported outcome, and
  the descriptor is as it was handed in.
\<close>

theorem lockAsyncYCbCr_missing_component:
  assumes "lock_yields b handle usage bounds fenceFd format planes"
    and "c = FLEX_COMPONENT_Y \<or> c = FLEX_COMPONENT_Cb \<or> c = FLEX_COMPONENT_Cr"
    and "c \<notin> component ` set planes"
  shows "lockAsyncYCbCr b handle usage bounds ycbcr fenceFd =
    (GRALLOC1_ERROR_UNSUPPORTED, ycbcr, lock_call b handle # snd (unlock b handle))"
proof -
  from assms(3) have none: "last_plane c planes = None"
    by (simp add: last_plane_None_iff)
  with assms(2) have "FlexYCbCrResolver format planes = None"
    by (auto simp: FlexYCbCrResolver_def split: option.splits)
  then show ?thesis
    by (simp add: lockAsyncYCbCr_resolver [OF assms(1)])
qed

theorem lockAsyncYCbCr_missing_component_witness:
  "lockAsyncYCbCr (device_backend FLEX_FORMAT_YCbCr [scenario_Y, scenario_Cb, alpha_plane])
     1 3 (0, 0, 16, 16) stale_ycbcr (- 1) =
   (GRALLOC1_ERROR_UNSUPPORTED, stale_ycbcr,
    [Device_lockFlex 1, Device_unlock 1, Sync_wait 7, Close_fd 7])"
proof -
  let ?planes = "[scenario_Y, scenario_Cb, alpha_plane]"
  let ?b = "device_backend FLEX_FORMAT_YCbCr ?planes"
  have locked: "lock_yields ?b 1 3 (0, 0, 16, 16) (- 1) FLEX_FORMAT_YCbCr ?planes"
    by (rule device_backend_yields) simp
  have which: "FLEX_COMPONENT_Cr = FLEX_COMPONENT_Y \<or> FLEX_COMPONENT_Cr = FLEX_COMPONENT_Cb \<or>
      FLEX_COMPONENT_Cr = FLEX_COMPONENT_Cr"
    by simp
  have absent: "FLEX_COMPONENT_Cr \<notin> component ` set ?planes"
    by (simp add: scenario_Y_def scenario_Cb_def alpha_plane_def)
  show ?thesis
    using lockAsyncYCbCr_missing_component [OF locked which absent, of stale_ycbcr]
    by (simp add: lock_call_def unlock_def unlockAsync_def device_backend_def)
qed

text \<open>
  C5. Once the lock has succeeded, a layout whose Cb and Cr planes differ in the
  vertical or in the horizontal increment makes \<open>lockAsyncYCbCr\<close> return the
  unsupported outcome, whether or not each plane is valid on its own.
\<close>

theorem lockAsyncYCbCr_chroma_mismatch:
  assumes "lock_yields b handle usage bounds fenceFd format planes"
    and "last_plane FLEX_COMPONENT_Cb planes = Some cbp"
    and "last_plane FLEX_COMPONENT_Cr planes = Some crp"
    and "v_increment cbp \<noteq> v_increment crp \<or> h_increment cbp \<noteq> h_increment crp"
  shows "lockAsyncYCbCr b handle usage bounds ycbcr fenceFd =
    (GRALLOC1_ERROR_UNSUPPORTED, ycbcr, lock_call b handle # snd (unlock b handle))"
proof -
  from assms(2-4) have "FlexYCbCrResolver format planes = None"
    by (auto simp: FlexYCbCrResolver_def split: option.splits)
  then show ?thesis
    by (simp add: lockAsyncYCbCr_resolver [OF assms(1)])
qed

theorem lockAsyncYCbCr_chroma_mismatch_witness:
  "isValidYCbCrPlane step1_Cb \<and> isValidYCbCrPlane scenario_Cr \<and>
   lockAsyncYCbCr (mapper_backend FLEX_FORMAT_YCbCr [scenario_Y, step1_Cb, scenario_Cr]) 1 3
     (0, 0, 16, 16) stale_ycbcr (- 1) =
   (GRALLOC1_ERROR_UNSUPPORTED, stale_ycbcr,
    [Mapper_lock 1, Mapper_unlock 1, Sync_wait 5, Close_fd 5])"
proof -
  let ?planes = "[scenario_Y, step1_Cb, scenario_Cr]"
  let ?b = "mapper_backend FLEX_FORMAT_YCbCr ?planes"
  have locked: "lock_yields ?b 1 3 (0, 0, 16, 16) (- 1) FLEX_FORMAT_YCbCr ?planes"
    by (rule mapper_backend_yields)
  have pcb: "last_plane FLEX_COMPONENT_Cb ?planes = Some step1_Cb"
    and pcr: "last_plane FLEX_COMPONENT_Cr ?planes = Some scenario_Cr"
    by (simp_all add: last_plane_def step1_Cb_def scenario_Y_def scenario_Cb_def
        scenario_Cr_def)
  have differ: "v_increment step1_Cb \<noteq> v_increment scenario_Cr \<or>
      h_increment step1_Cb \<noteq> h_increment scenario_Cr"
    by (simp add: step1_Cb_def scenario_Cb_def scenario_Cr_def)
  have valid: "isValidYCbCrPlane step1_Cb \<and> isValidYCbCrPlane scenario_Cr"
    by (simp add: isValidYCbCrPlane_def step1_Cb_def scenario_Cb_def scenario_Cr_def)
  show ?thesis
    using lockAsyncYCbCr_chroma_mismatch [OF locked pcb pcr differ, of stale_ycbcr] valid
    by (simp add: lock_call_def unlock_def unlockAsync_def mapper_backend_def)
qed

text \<open>
  C3. Once the lock has succeeded, \<open>lockAsyncYCbCr\<close> fails exactly on the validation
  failures (format tag not YCbCr, a component Y, Cb or Cr missing, an invalid plane,
  Cb and Cr with different increments). On each of them it returns
  \<^verbatim>\<open>GRALLOC1_ERROR_UNSUPPORTED\<close>, and the calls it has made are the lock followed by
  those of one \<open>unlock\<close>, which unlocks the handle at the back end exactly once.
\<close>

theorem lockAsyncYCbCr_failure_unlocks_once:
  assumes "lock_yields b handle usage bounds fenceFd format planes"
    and "lockAsyncYCbCr b handle usage bounds ycbcr fenceFd = (status, ycbcr', evs)"
  shows "(status \<noteq> GRALLOC1_ERROR_NONE \<longleftrightarrow>
       format \<noteq> FLEX_FORMAT_YCbCr \<or>
       last_plane FLEX_COMPONENT_Y planes = None \<or>
       last_plane FLEX_COMPONENT_Cb planes = None \<or>
       last_plane FLEX_COMPONENT_Cr planes = None \<or>
       (\<exists>yp cbp crp.
          last_plane FLEX_COMPONENT_Y planes = Some yp \<and>
          last_plane FLEX_COMPONENT_Cb planes = Some cbp \<and>
          last_plane FLEX_COMPONENT_Cr planes = Some crp \<and>
          (\<not> isValidYCbCrPlane yp \<or> \<not> isValidYCbCrPlane cbp \<or> \<not> isValidYCbCrPlane crp \<or>
           v_increment cbp \<noteq> v_increment crp \<or> h_increment cbp \<noteq> h_increment crp))) \<and>
    (status \<noteq> GRALLOC1_ERROR_NONE \<longrightarrow>
       status = GRALLOC1_ERROR_UNSUPPORTED \<and>
       evs = lock_call b handle # snd (unlock b handle) \<and>
       unlock_calls handle evs = 1)"
proof (cases "FlexYCbCrResolver format planes")
  case None
  with assms(2) have r: "status = GRALLOC1_ERROR_UNSUPPORTED"
      "evs = lock_call b handle # snd (unlock b handle)"
    by (simp_all add: lockAsyncYCbCr_resolver [OF assms(1)])
  from r(2) have once: "unlock_calls handle evs = 1"
    by (simp add: unlock_calls_lock_call unlock_calls_unlock)
  note failure = resolver_None_iff [THEN iffD1, OF None]
  from r have ne: "status \<noteq> GRALLOC1_ERROR_NONE" by simp
  show ?thesis
    using failure ne r once by (intro conjI impI iffI) assumption+
next
  case (Some d)
  with assms(2) have st: "status = GRALLOC1_ERROR_NONE"
    by (simp add: lockAsyncYCbCr_resolver [OF assms(1)])
  from Some have "FlexYCbCrResolver format planes \<noteq> None" by simp
  then have no_failure: "\<not> (format \<noteq> FLEX_FORMAT_YCbCr \<or>
       last_plane FLEX_COMPONENT_Y planes = None \<or>
       last_plane FLEX_COMPONENT_Cb planes = None \<or>
       last_plane FLEX_COMPONENT_Cr planes = None \<or>
       (\<exists>yp cbp crp.
          last_plane FLEX_COMPONENT_Y planes = Some yp \<and>
          last_plane FLEX_COMPONENT_Cb planes = Some cbp \<and>
          last_plane FLEX_COMPONENT_Cr planes = Some crp \<and>
          (\<not> isValidYCbCrPlane yp \<or> \<not> isValidYCbCrPlane cbp \<or> \<not> isValidYCbCrPlane crp \<or>
           v_increment cbp \<noteq> v_increment crp \<or> h_increment cbp \<noteq> h_increment crp)))"
    unfolding resolver_None_iff .
  from no_failure st show ?thesis by blast
qed

theorem lockAsyncYCbCr_failure_unlocks_once_witness:
  "unlock_calls 1 [Device_lockFlex 1, Device_unlock 1, Sync_wait 7, Close_fd 7] = 1 \<and>
   lockAsyncYCbCr (device_backend FLEX_FORMAT_YCbCr [deep_Y, scenario_Cb, scenario_Cr])
     1 3 (0, 0, 16, 16) stale_ycbcr (- 1) =
   (GRALLOC1_ERROR_UNSUPPORTED, stale_ycbcr,
    [Device_lockFlex 1, Device_unlock 1, Sync_wait 7, Close_fd 7])"
proof -
  let ?planes = "[deep_Y, scenario_Cb, scenario_Cr]"
  let ?b = "device_backend FLEX_FORMAT_YCbCr ?planes"
  let ?evs = "[Device_lockFlex 1, Device_unlock 1, Sync_wait 7, Close_fd 7]"
  have locked: "lock_yields ?b 1 3 (0, 0, 16, 16) (- 1) FLEX_FORMAT_YCbCr ?planes"
    by (rule device_backend_yields) simp
  have unsupported: "FlexYCbCrResolver FLEX_FORMAT_YCbCr ?planes = None"
    by (simp add: FlexYCbCrResolver_def last_plane_def usable_sample_plane_def deep_Y_def
        scenario_Y_def scenario_Cb_def scenario_Cr_def)
  have calls: "lock_call ?b 1 # snd (unlock ?b 1) = ?evs"
    by (simp add: lock_call_def unlock_def unlockAsync_def device_backend_def)
  have run: "lockAsyncYCbCr ?b 1 3 (0, 0, 16, 16) stale_ycbcr (- 1) =
      (GRALLOC1_ERROR_UNSUPPORTED, stale_ycbcr, ?evs)"
    by (simp only: lockAsyncYCbCr_resolver [OF locked] unsupported calls option.case)
  have failed: "GRALLOC1_ERROR_UNSUPPORTED \<noteq> GRALLOC1_ERROR_NONE" by simp
  note once = lockAsyncYCbCr_failure_unlocks_once [OF locked run, THEN conjunct2, THEN mp,
      OF failed, THEN conjunct2, THEN conjunct2]
  from once run show ?thesis by (rule conjI)
qed

text \<open>
  C7. On the flex-layout path (the mapper, or a device that is not the adapter)
  every failure of \<open>lockAsyncYCbCr\<close> leaves the descriptor as it was handed in, and a
  success leaves a descriptor all six fields of which come from the Y, Cb and Cr
  planes of the layout the lock has returned.
\<close>

theorem lockAsyncYCbCr_no_partial_output:
  assumes "mapper_valid b \<or> \<not> device_onAdapter b"
    and "lockAsyncYCbCr b handle usage bounds ycbcr fenceFd = (status, ycbcr', evs)"
  shows "(status \<noteq> GRALLOC1_ERROR_NONE \<longrightarrow> ycbcr' = ycbcr) \<and>
    (status = GRALLOC1_ERROR_NONE \<longrightarrow>
       (\<exists>planes yp cbp crp.
          lock_yields b handle usage bounds fenceFd FLEX_FORMAT_YCbCr planes \<and>
          last_plane FLEX_COMPONENT_Y planes = Some yp \<and>
          last_plane FLEX_COMPONENT_Cb planes = Some cbp \<and>
          last_plane FLEX_COMPONENT_Cr planes = Some crp \<and>
          ycbcr' = \<lparr>y = top_left yp, cb = top_left cbp, cr = top_left crp,
                    ystride = scast (v_increment yp), cstride = scast (v_increment cbp),
                    chroma_step = scast (h_increment cbp)\<rparr>))"
proof -
  from flex_path_cases [OF assms(1), of handle usage bounds fenceFd ycbcr]
  consider (locked) format planes where "lock_yields b handle usage bounds fenceFd format planes"
    | (refused) "status \<noteq> GRALLOC1_ERROR_NONE" "ycbcr' = ycbcr"
    using assms(2) by auto
  then show ?thesis
  proof cases
    case locked
    show ?thesis
    proof (cases "FlexYCbCrResolver format planes")
      case None
      with assms(2) show ?thesis
        by (simp add: lockAsyncYCbCr_resolver [OF locked])
    next
      case (Some d)
      with assms(2) have st: "status = GRALLOC1_ERROR_NONE" and d: "ycbcr' = d"
        by (simp_all add: lockAsyncYCbCr_resolver [OF locked])
      from resolver_SomeD [OF Some] locked d st show ?thesis by blast
    qed
  next
    case refused
    then show ?thesis by simp
  qed
qed

theorem lockAsyncYCbCr_no_partial_output_witness:
  "lockAsyncYCbCr (device_backend FLEX_FORMAT_YCbCr [scenario_Y, scenario_Cb]) 1 3
     (0, 0, 16, 16) stale_ycbcr (- 1) = (GRALLOC1_ERROR_UNSUPPORTED, stale_ycbcr, [])"
proof -
  let ?b = "device_backend FLEX_FORMAT_YCbCr [scenario_Y, scenario_Cb]"
  have path: "mapper_valid ?b \<or> \<not> device_onAdapter ?b"
    by (simp add: device_backend_def)
  obtain status ycbcr' evs where
    run: "lockAsyncYCbCr ?b 1 3 (0, 0, 16, 16) stale_ycbcr (- 1) = (status, ycbcr', evs)"
    by (cases "lockAsyncYCbCr ?b 1 3 (0, 0, 16, 16) stale_ycbcr (- 1)")
  then have st: "status = GRALLOC1_ERROR_UNSUPPORTED" and evs: "evs = []"
    by (simp_all add: lockAsyncYCbCr_def device_backend_def)
  from lockAsyncYCbCr_no_partial_output [OF path run] st have "ycbcr' = stale_ycbcr"
    by simp
  with run st evs show ?thesis by simp
qed

text \<open>
  C8. The plane search is one pass over the list in order: the search of a list
  followed by another is the search of the second continued from the result of the
  first. For each of Y, Cb and Cr it ends at the position of the last plane that
  bears the component, whatever planes with that component come before it. What
  \<open>lockAsyncYCbCr\<close> does after the lock depends on the planes only through the last
  plane of each of the three components: when \<open>ky\<close>, \<open>kcb\<close> and \<open>kcr\<close> are the
  positions of the last Y, Cb and Cr plane, the planes validated are those at
  \<open>ky\<close>, \<open>kcb\<close> and \<open>kcr\<close>, the increments compared are those of the planes at \<open>kcb\<close>
  and \<open>kcr\<close>, and the descriptor written has the addresses of the planes at \<open>ky\<close>,
  \<open>kcb\<close> and \<open>kcr\<close>, the vertical increments of those at \<open>ky\<close> and \<open>kcb\<close> and the
  horizontal increment of that at \<open>kcb\<close>.
\<close>

theorem findPlanes_keeps_last_occurrence:
  "findPlanes_loop (xs @ zs) i its =
     findPlanes_loop zs (i + length xs) (findPlanes_loop xs i its) \<and>
   (\<forall>k. k < length planes \<and> component (planes ! k) = FLEX_COMPONENT_Y \<and>
      (\<forall>j. k < j \<and> j < length planes \<longrightarrow> component (planes ! j) \<noteq> FLEX_COMPONENT_Y) \<longrightarrow>
      yPlane (findPlanes planes) = k) \<and>
   (\<forall>k. k < length planes \<and> component (planes ! k) = FLEX_COMPONENT_Cb \<and>
      (\<forall>j. k < j \<and> j < length planes \<longrightarrow> component (planes ! j) \<noteq> FLEX_COMPONENT_Cb) \<longrightarrow>
      cbPlane (findPlanes planes) = k) \<and>
   (\<forall>k. k < length planes \<and> component (planes ! k) = FLEX_COMPONENT_Cr \<and>
      (\<forall>j. k < j \<and> j < length planes \<longrightarrow> component (planes ! j) \<noteq> FLEX_COMPONENT_Cr) \<longrightarrow>
      crPlane (findPlanes planes) = k) \<and>
   (last_plane FLEX_COMPONENT_Y planes = last_plane FLEX_COMPONENT_Y planes' \<and>
    last_plane FLEX_COMPONENT_Cb planes = last_plane FLEX_COMPONENT_Cb planes' \<and>
    last_plane FLEX_COMPONENT_Cr planes = last_plane FLEX_COMPONENT_Cr planes' \<longrightarrow>
    lockAsyncYCbCr_convert b handle error format planes ycbcr =
    lockAsyncYCbCr_convert b handle error format planes' ycbcr) \<and>
   ((ky < length planes \<and> component (planes ! ky) = FLEX_COMPONENT_Y \<and>
      (\<forall>j. ky < j \<and> j < length planes \<longrightarrow> component (planes ! j) \<noteq> FLEX_COMPONENT_Y)) \<and>
    (kcb < length planes \<and> component (planes ! kcb) = FLEX_COMPONENT_Cb \<and>
      (\<forall>j. kcb < j \<and> j < length planes \<longrightarrow> component (planes ! j) \<noteq> FLEX_COMPONENT_Cb)) \<and>
    (kcr < length planes \<and> component (planes ! kcr) = FLEX_COMPONENT_Cr \<and>
      (\<forall>j. kcr < j \<and> j < length planes \<longrightarrow> component (planes ! j) \<noteq> FLEX_COMPONENT_Cr)) \<longrightarrow>
    lockAsyncYCbCr_convert b handle GRALLOC1_ERROR_NONE FLEX_FORMAT_YCbCr planes ycbcr =
      (if isValidYCbCrPlane (planes ! ky) \<and> isValidYCbCrPlane (planes ! kcb) \<and>
          isValidYCbCrPlane (planes ! kcr) \<and>
          v_increment (planes ! kcb) = v_increment (planes ! kcr) \<and>
          h_increment (planes ! kcb) = h_increment (planes ! kcr)
       then (GRALLOC1_ERROR_NONE,
             \<lparr>y = top_left (planes ! ky), cb = top_left (planes ! kcb),
              cr = top_left (planes ! kcr),
              ystride = scast (v_increment (planes ! ky)),
              cstride = scast (v_increment (planes ! kcb)),
              chroma_step = scast (h_increment (planes ! kcb))\<rparr>,
             [])
       else (GRALLOC1_ERROR_UNSUPPORTED, ycbcr, snd (unlock b handle))))"
proof (intro conjI allI impI)
  show "findPlanes_loop (xs @ zs) i its =
      findPlanes_loop zs (i + length xs) (findPlanes_loop xs i its)"
    by (rule findPlanes_loop_append)
next
  fix k
  assume "k < length planes \<and> component (planes ! k) = FLEX_COMPONENT_Y \<and>
      (\<forall>j. k < j \<and> j < length planes \<longrightarrow> component (planes ! j) \<noteq> FLEX_COMPONENT_Y)"
  then show "yPlane (findPlanes planes) = k"
    using found_at_unique [OF findPlanes_yPlane, of k planes] by blast
next
  fix k
  assume "k < length planes \<and> component (planes ! k) = FLEX_COMPONENT_Cb \<and>
      (\<forall>j. k < j \<and> j < length planes \<longrightarrow> component (planes ! j) \<noteq> FLEX_COMPONENT_Cb)"
  then show "cbPlane (findPlanes planes) = k"
    using found_at_unique [OF findPlanes_cbPlane, of k planes] by blast
next
  fix k
  assume "k < length planes \<and> component (planes ! k) = FLEX_COMPONENT_Cr \<and>
      (\<forall>j. k < j \<and> j < length planes \<longrightarrow> component (planes ! j) \<noteq> FLEX_COMPONENT_Cr)"
  then show "crPlane (findPlanes planes) = k"
    using found_at_unique [OF findPlanes_crPlane, of k planes] by blast
next
  assume "last_plane FLEX_COMPONENT_Y planes = last_plane FLEX_COMPONENT_Y planes' \<and>
    last_plane FLEX_COMPONENT_Cb planes = last_plane FLEX_COMPONENT_Cb planes' \<and>
    last_plane FLEX_COMPONENT_Cr planes = last_plane FLEX_COMPONENT_Cr planes'"
  then show "lockAsyncYCbCr_convert b handle error format planes ycbcr =
    lockAsyncYCbCr_convert b handle error format planes' ycbcr"
    by (intro convert_last_planes) simp_all
next
  assume last:
    "(ky < length planes \<and> component (planes ! ky) = FLEX_COMPONENT_Y \<and>
      (\<forall>j. ky < j \<and> j < length planes \<longrightarrow> component (planes ! j) \<noteq> FLEX_COMPONENT_Y)) \<and>
    (kcb < length planes \<and> component (planes ! kcb) = FLEX_COMPONENT_Cb \<and>
      (\<forall>j. kcb < j \<and> j < length planes \<longrightarrow> component (planes ! j) \<noteq> FLEX_COMPONENT_Cb)) \<and>
    (kcr < length planes \<and> component (planes ! kcr) = FLEX_COMPONENT_Cr \<and>
      (\<forall>j. kcr < j \<and> j < length planes \<longrightarrow> component (planes ! j) \<noteq> FLEX_COMPONENT_Cr))"
  then have bounds: "ky \<noteq> length planes" "kcb \<noteq> length planes" "kcr \<noteq> length planes"
    by simp_all
  from last have iy: "yPlane (findPlanes planes) = ky"
    using found_at_unique [OF findPlanes_yPlane, of ky planes] by blast
  from last have icb: "cbPlane (findPlanes planes) = kcb"
    using found_at_unique [OF findPlanes_cbPlane, of kcb planes] by blast
  from last have icr: "crPlane (findPlanes planes) = kcr"
    using found_at_unique [OF findPlanes_crPlane, of kcr planes] by blast
  show "lockAsyncYCbCr_convert b handle GRALLOC1_ERROR_NONE FLEX_FORMAT_YCbCr planes ycbcr =
      (if isValidYCbCrPlane (planes ! ky) \<and> isValidYCbCrPlane (planes ! kcb) \<and>
          isValidYCbCrPlane (planes ! kcr) \<and>
          v_increment (planes ! kcb) = v_increment (planes ! kcr) \<and>
          h_increment (planes ! kcb) = h_increment (planes ! kcr)
       then (GRALLOC1_ERROR_NONE,
             \<lparr>y = top_left (planes ! ky), cb = top_left (planes ! kcb),
              cr = top_left (planes ! kcr),
              ystride = scast (v_increment (planes ! ky)),
              cstride = scast (v_increment (planes ! kcb)),
              chroma_step = scast (h_increment (planes ! kcb))\<rparr>,
             [])
       else (GRALLOC1_ERROR_UNSUPPORTED, ycbcr, snd (unlock b handle)))"
    using bounds
    by (simp add: lockAsyncYCbCr_convert_def Let_def iy icb icr android_ycbcr_all_fields)
qed

theorem findPlanes_keeps_last_occurrence_witness:
  "yPlane (findPlanes repeated_Y_planes) = 3 \<and>
   lockAsyncYCbCr_convert (mapper_backend FLEX_FORMAT_YCbCr repeated_Y_planes) 1
     GRALLOC1_ERROR_NONE FLEX_FORMAT_YCbCr repeated_Y_planes stale_ycbcr =
   lockAsyncYCbCr_convert (mapper_backend FLEX_FORMAT_YCbCr repeated_Y_planes) 1
     GRALLOC1_ERROR_NONE FLEX_FORMAT_YCbCr scenario_planes stale_ycbcr \<and>
   lockAsyncYCbCr_convert (mapper_backend FLEX_FORMAT_YCbCr repeated_Y_planes) 1
     GRALLOC1_ERROR_NONE FLEX_FORMAT_YCbCr repeated_Y_planes stale_ycbcr =
   (GRALLOC1_ERROR_NONE,
    \<lparr>y = 4096, cb = 8192, cr = 8193, ystride = 64, cstride = 32, chroma_step = 2\<rparr>, []) \<and>
   lockAsyncYCbCr_convert (mapper_backend FLEX_FORMAT_YCbCr repeated_Y_planes) 1
     GRALLOC1_ERROR_NONE FLEX_FORMAT_YCbCr [scenario_Y, scenario_Cb, scenario_Cr, deep_Y]
     stale_ycbcr =
   (GRALLOC1_ERROR_UNSUPPORTED, stale_ycbcr, [Mapper_unlock 1, Sync_wait 5, Close_fd 5])"
proof -
  let ?b = "mapper_backend FLEX_FORMAT_YCbCr repeated_Y_planes"
  let ?late = "[scenario_Y, scenario_Cb, scenario_Cr, deep_Y]"
  note k = findPlanes_keeps_last_occurrence [where xs = "[]" and zs = "[]" and i = 0
      and its = "\<lparr>yPlane = 0, cbPlane = 0, crPlane = 0\<rparr>" and planes = repeated_Y_planes
      and planes' = scenario_planes and b = ?b and handle = 1
      and error = GRALLOC1_ERROR_NONE and format = FLEX_FORMAT_YCbCr
      and ycbcr = stale_ycbcr and ky = 3 and kcb = 1 and kcr = 2]
  note k' = findPlanes_keeps_last_occurrence [where xs = "[]" and zs = "[]" and i = 0
      and its = "\<lparr>yPlane = 0, cbPlane = 0, crPlane = 0\<rparr>" and planes = ?late
      and planes' = ?late and b = ?b and handle = 1
      and error = GRALLOC1_ERROR_NONE and format = FLEX_FORMAT_YCbCr
      and ycbcr = stale_ycbcr and ky = 3 and kcb = 1 and kcr = 2]
  have last_Y: "3 < length repeated_Y_planes \<and>
      component (repeated_Y_planes ! 3) = FLEX_COMPONENT_Y \<and>
      (\<forall>j. 3 < j \<and> j < length repeated_Y_planes \<longrightarrow>
         component (repeated_Y_planes ! j) \<noteq> FLEX_COMPONENT_Y)"
    by (auto simp: repeated_Y_planes_def scenario_Y_def)
  have last_Cb: "1 < length repeated_Y_planes \<and>
      component (repeated_Y_planes ! 1) = FLEX_COMPONENT_Cb \<and>
      (\<forall>j. 1 < j \<and> j < length repeated_Y_planes \<longrightarrow>
         component (repeated_Y_planes ! j) \<noteq> FLEX_COMPONENT_Cb)"
    by (auto simp: repeated_Y_planes_def scenario_Y_def scenario_Cb_def scenario_Cr_def
        nth_Cons split: nat.splits)
  have last_Cr: "2 < length repeated_Y_planes \<and>
      component (repeated_Y_planes ! 2) = FLEX_COMPONENT_Cr \<and>
      (\<forall>j. 2 < j \<and> j < length repeated_Y_planes \<longrightarrow>
         component (repeated_Y_planes ! j) \<noteq> FLEX_COMPONENT_Cr)"
    by (auto simp: repeated_Y_planes_def scenario_Y_def scenario_Cb_def scenario_Cr_def
        nth_Cons split: nat.splits)
  have late_Y: "3 < length ?late \<and> component (?late ! 3) = FLEX_COMPONENT_Y \<and>
      (\<forall>j. 3 < j \<and> j < length ?late \<longrightarrow> component (?late ! j) \<noteq> FLEX_COMPONENT_Y)"
    by (auto simp: deep_Y_def scenario_Y_def)
  have late_Cb: "1 < length ?late \<and> component (?late ! 1) = FLEX_COMPONENT_Cb \<and>
      (\<forall>j. 1 < j \<and> j < length ?late \<longrightarrow> component (?late ! j) \<noteq> FLEX_COMPONENT_Cb)"
    by (auto simp: deep_Y_def scenario_Y_def scenario_Cb_def scenario_Cr_def
        nth_Cons split: nat.splits)
  have late_Cr: "2 < length ?late \<and> component (?late ! 2) = FLEX_COMPONENT_Cr \<and>
      (\<forall>j. 2 < j \<and> j < length ?late \<longrightarrow> component (?late ! j) \<noteq> FLEX_COMPONENT_Cr)"
    by (auto simp: deep_Y_def scenario_Y_def scenario_Cb_def scenario_Cr_def
        nth_Cons split: nat.splits)
  have same: "last_plane FLEX_COMPONENT_Y repeated_Y_planes =
        last_plane FLEX_COMPONENT_Y scenario_planes \<and>
      last_plane FLEX_COMPONENT_Cb repeated_Y_planes =
        last_plane FLEX_COMPONENT_Cb scenario_planes \<and>
      last_plane FLEX_COMPONENT_Cr repeated_Y_planes =
        last_plane FLEX_COMPONENT_Cr scenario_planes"
    by (simp add: last_plane_def repeated_Y_planes_def scenario_planes_def deep_Y_def
        scenario_Y_def scenario_Cb_def scenario_Cr_def)
  from k last_Y have pos: "yPlane (findPlanes repeated_Y_planes) = 3" by blast
  from k same have agree: "lockAsyncYCbCr_convert ?b 1 GRALLOC1_ERROR_NONE FLEX_FORMAT_YCbCr
      repeated_Y_planes stale_ycbcr =
    lockAsyncYCbCr_convert ?b 1 GRALLOC1_ERROR_NONE FLEX_FORMAT_YCbCr scenario_planes
      stale_ycbcr"
    by blast
  note run = k [THEN conjunct2, THEN conjunct2, THEN conjunct2, THEN conjunct2,
      THEN conjunct2, THEN mp, OF conjI [OF last_Y conjI [OF last_Cb last_Cr]]]
  have kept: "lockAsyncYCbCr_convert ?b 1 GRALLOC1_ERROR_NONE FLEX_FORMAT_YCbCr
      repeated_Y_planes stale_ycbcr =
    (GRALLOC1_ERROR_NONE,
     \<lparr>y = 4096, cb = 8192, cr = 8193, ystride = 64, cstride = 32, chroma_step = 2\<rparr>, [])"
    unfolding run
    by (simp add: isValidYCbCrPlane_def repeated_Y_planes_def scenario_Y_def
        scenario_Cb_def scenario_Cr_def)
  note run' = k' [THEN conjunct2, THEN conjunct2, THEN conjunct2, THEN conjunct2,
      THEN conjunct2, THEN mp, OF conjI [OF late_Y conjI [OF late_Cb late_Cr]]]
  have overridden: "lockAsyncYCbCr_convert ?b 1 GRALLOC1_ERROR_NONE FLEX_FORMAT_YCbCr
      ?late stale_ycbcr =
    (GRALLOC1_ERROR_UNSUPPORTED, stale_ycbcr, [Mapper_unlock 1, Sync_wait 5, Close_fd 5])"
    unfolding run'
    by (simp add: isValidYCbCrPlane_def deep_Y_def scenario_Y_def unlock_def
        unlockAsync_def mapper_backend_def)
  from pos agree kept overridden show ?thesis by (intro conjI)
qed

text \<open>
  C9. The outcome is a function of the layout alone. Two conversions of the same
  layout, with any back ends, handles and descriptors handed in, end with the same
  status, and on success with the same descriptor; so do two calls of
  \<open>lockAsyncYCbCr\<close> whose locks have returned the same layout.
\<close>

theorem lockAsyncYCbCr_function_of_layout:
  "fst (lockAsyncYCbCr_convert b1 handle1 GRALLOC1_ERROR_NONE format planes ycbcr1) =
   fst (lockAsyncYCbCr_convert b2 handle2 GRALLOC1_ERROR_NONE format planes ycbcr2) \<and>
   (fst (lockAsyncYCbCr_convert b1 handle1 GRALLOC1_ERROR_NONE format planes ycbcr1) =
      GRALLOC1_ERROR_NONE \<longrightarrow>
    fst (snd (lockAsyncYCbCr_convert b1 handle1 GRALLOC1_ERROR_NONE format planes ycbcr1)) =
    fst (snd (lockAsyncYCbCr_convert b2 handle2 GRALLOC1_ERROR_NONE format planes ycbcr2))) \<and>
   (lock_yields b1 handle1 usage1 bounds1 fenceFd1 format planes \<and>
    lock_yields b2 handle2 usage2 bounds2 fenceFd2 format planes \<longrightarrow>
    fst (lockAsyncYCbCr b1 handle1 usage1 bounds1 ycbcr1 fenceFd1) =
    fst (lockAsyncYCbCr b2 handle2 usage2 bounds2 ycbcr2 fenceFd2) \<and>
    (fst (lockAsyncYCbCr b1 handle1 usage1 bounds1 ycbcr1 fenceFd1) = GRALLOC1_ERROR_NONE \<longrightarrow>
     fst (snd (lockAsyncYCbCr b1 handle1 usage1 bounds1 ycbcr1 fenceFd1)) =
     fst (snd (lockAsyncYCbCr b2 handle2 usage2 bounds2 ycbcr2 fenceFd2))))"
proof (intro conjI impI)
  show "fst (lockAsyncYCbCr_convert b1 handle1 GRALLOC1_ERROR_NONE format planes ycbcr1) =
      fst (lockAsyncYCbCr_convert b2 handle2 GRALLOC1_ERROR_NONE format planes ycbcr2)"
    by (simp add: convert_resolver split: option.splits)
next
  assume "fst (lockAsyncYCbCr_convert b1 handle1 GRALLOC1_ERROR_NONE format planes ycbcr1) =
      GRALLOC1_ERROR_NONE"
  then show
    "fst (snd (lockAsyncYCbCr_convert b1 handle1 GRALLOC1_ERROR_NONE format planes ycbcr1)) =
     fst (snd (lockAsyncYCbCr_convert b2 handle2 GRALLOC1_ERROR_NONE format planes ycbcr2))"
    by (simp add: convert_resolver split: option.splits)
next
  assume "lock_yields b1 handle1 usage1 bounds1 fenceFd1 format planes \<and>
    lock_yields b2 handle2 usage2 bounds2 fenceFd2 format planes"
  then have l1: "lock_yields b1 handle1 usage1 bounds1 fenceFd1 format planes"
    and l2: "lock_yields b2 handle2 usage2 bounds2 fenceFd2 format planes"
    by simp_all
  show "fst (lockAsyncYCbCr b1 handle1 usage1 bounds1 ycbcr1 fenceFd1) =
      fst (lockAsyncYCbCr b2 handle2 usage2 bounds2 ycbcr2 fenceFd2)"
    by (simp add: lockAsyncYCbCr_resolver [OF l1] lockAsyncYCbCr_resolver [OF l2]
        split: option.splits)
  assume "fst (lockAsyncYCbCr b1 handle1 usage1 bounds1 ycbcr1 fenceFd1) = GRALLOC1_ERROR_NONE"
  then show "fst (snd (lockAsyncYCbCr b1 handle1 usage1 bounds1 ycbcr1 fenceFd1)) =
      fst (snd (lockAsyncYCbCr b2 handle2 usage2 bounds2 ycbcr2 fenceFd2))"
    by (simp add: lockAsyncYCbCr_resolver [OF l1] lockAsyncYCbCr_resolver [OF l2]
        split: option.splits)
qed

theorem lockAsyncYCbCr_function_of_layout_witness:
  "lockAsyncYCbCr (mapper_backend FLEX_FORMAT_YCbCr scenario_planes) 1 3 (0, 0, 16, 16)
     stale_ycbcr (- 1) =
   (GRALLOC1_ERROR_NONE,
    \<lparr>y = 4096, cb = 8192, cr = 8193, ystride = 64, cstride = 32, chroma_step = 2\<rparr>,
    [Mapper_lock 1]) \<and>
   fst (lockAsyncYCbCr (device_backend FLEX_FORMAT_YCbCr scenario_planes) 2 0 (0, 0, 8, 8)
     \<lparr>y = 0, cb = 0, cr = 0, ystride = 0, cstride = 0, chroma_step = 0\<rparr> 9) =
     GRALLOC1_ERROR_NONE \<and>
   fst (snd (lockAsyncYCbCr (device_backend FLEX_FORMAT_YCbCr scenario_planes) 2 0
     (0, 0, 8, 8) \<lparr>y = 0, cb = 0, cr = 0, ystride = 0, cstride = 0, chroma_step = 0\<rparr> 9)) =
     \<lparr>y = 4096, cb = 8192, cr = 8193, ystride = 64, cstride = 32, chroma_step = 2\<rparr>"
proof -
  let ?b1 = "mapper_backend FLEX_FORMAT_YCbCr scenario_planes"
  let ?b2 = "device_backend FLEX_FORMAT_YCbCr scenario_planes"
  let ?z = "\<lparr>y = 0, cb = 0, cr = 0, ystride = 0, cstride = 0, chroma_step = 0\<rparr> :: 64 android_ycbcr"
  have l1: "lock_yields ?b1 1 3 (0, 0, 16, 16) (- 1) FLEX_FORMAT_YCbCr scenario_planes"
    by (rule mapper_backend_yields)
  have l2: "lock_yields ?b2 2 0 (0, 0, 8, 8) 9 FLEX_FORMAT_YCbCr scenario_planes"
    by (rule device_backend_yields) (simp add: scenario_planes_def)
  have res: "FlexYCbCrResolver FLEX_FORMAT_YCbCr scenario_planes =
      Some \<lparr>y = 4096, cb = 8192, cr = 8193, ystride = 64, cstride = 32, chroma_step = 2\<rparr>"
    by (simp add: FlexYCbCrResolver_def last_plane_def usable_sample_plane_def
        scenario_planes_def scenario_Y_def scenario_Cb_def scenario_Cr_def)
  have first: "lockAsyncYCbCr ?b1 1 3 (0, 0, 16, 16) stale_ycbcr (- 1) =
      (GRALLOC1_ERROR_NONE,
       \<lparr>y = 4096, cb = 8192, cr = 8193, ystride = 64, cstride = 32, chroma_step = 2\<rparr>,
       [Mapper_lock 1])"
  proof -
    have call: "lock_call ?b1 1 = Mapper_lock 1"
      by (simp add: lock_call_def mapper_backend_def)
    show ?thesis
      by (simp only: lockAsyncYCbCr_resolver [OF l1] res call option.case)
  qed
  note same = lockAsyncYCbCr_function_of_layout [of ?b1 1 FLEX_FORMAT_YCbCr scenario_planes
      stale_ycbcr ?b2 2 ?z 3 "(0, 0, 16, 16)" "- 1" 0 "(0, 0, 8, 8)" 9,
      THEN conjunct2, THEN conjunct2, THEN mp, OF conjI [OF l1 l2]]
  from same first show ?thesis by simp
qed

text \<open>
  C10. A plane whose component identifier is none of Y, Cb and Cr can be inserted
  into or removed from the plane list at any position without changing what the
  conversion returns: status, descriptor and calls are the same, whatever the plane
  holds.
\<close>

theorem lockAsyncYCbCr_convert_ignores_other:
  assumes "component p \<noteq> FLEX_COMPONENT_Y \<and> component p \<noteq> FLEX_COMPONENT_Cb \<and>
    component p \<noteq> FLEX_COMPONENT_Cr"
  shows "lockAsyncYCbCr_convert b handle error format (xs @ p # zs) ycbcr =
    lockAsyncYCbCr_convert b handle error format (xs @ zs) ycbcr"
  using assms by (intro convert_last_planes last_plane_skip) simp_all

theorem lockAsyncYCbCr_convert_ignores_other_witness:
  "lockAsyncYCbCr_convert (mapper_backend FLEX_FORMAT_YCbCr scenario_planes) 1
     GRALLOC1_ERROR_NONE FLEX_FORMAT_YCbCr [scenario_Y, alpha_plane, scenario_Cb, scenario_Cr]
     stale_ycbcr =
   (GRALLOC1_ERROR_NONE,
    \<lparr>y = 4096, cb = 8192, cr = 8193, ystride = 64, cstride = 32, chroma_step = 2\<rparr>, [])"
proof -
  let ?b = "mapper_backend FLEX_FORMAT_YCbCr scenario_planes"
  have other: "component alpha_plane \<noteq> FLEX_COMPONENT_Y \<and>
      component alpha_plane \<noteq> FLEX_COMPONENT_Cb \<and> component alpha_plane \<noteq> FLEX_COMPONENT_Cr"
    by (simp add: alpha_plane_def)
  have res: "FlexYCbCrResolver FLEX_FORMAT_YCbCr scenario_planes =
      Some \<lparr>y = 4096, cb = 8192, cr = 8193, ystride = 64, cstride = 32, chroma_step = 2\<rparr>"
    by (simp add: FlexYCbCrResolver_def last_plane_def usable_sample_plane_def
        scenario_planes_def scenario_Y_def scenario_Cb_def scenario_Cr_def)
  have without: "lockAsyncYCbCr_convert ?b 1 GRALLOC1_ERROR_NONE FLEX_FORMAT_YCbCr
      scenario_planes stale_ycbcr =
    (GRALLOC1_ERROR_NONE,
     \<lparr>y = 4096, cb = 8192, cr = 8193, ystride = 64, cstride = 32, chroma_step = 2\<rparr>, [])"
    by (simp add: convert_resolver res)
  from lockAsyncYCbCr_convert_ignores_other [OF other, of ?b 1 GRALLOC1_ERROR_NONE
      FLEX_FORMAT_YCbCr "[scenario_Y]" "[scenario_Cb, scenario_Cr]" stale_ycbcr] without
  show ?thesis by (simp add: scenario_planes_def)
qed

end
